theory Spec2Isabelle
  imports Main
begin

section \<open>Data model\<close>

text \<open>
  The Linear tracker plugin (src/src/client.ts holds both the API client and the
  plugin; the type declarations are in the types module). JavaScript strings are
  modelled as \<open>string\<close>, optional fields as \<open>option\<close>, numbers that carry
  priorities, offsets and limits as \<open>int\<close>. Record fields carry a prefix naming
  their interface, because several interfaces share the field names \<open>id\<close>,
  \<open>title\<close>, \<open>type\<close>.
\<close>

text \<open>\<open>LinearStateType\<close> is a string at run time; \<open>mapStateToStatus\<close> has a
  \<open>default\<close> branch for values outside the five names, so it stays a string here.\<close>

type_synonym LinearStateType = string

record LinearState =
  state_id :: string
  state_name :: string
  state_type :: LinearStateType

record LinearLabel =
  label_id :: string
  label_name :: string

record LinearUser =
  user_id :: string
  user_name :: string
  user_email :: string

record LinearParent =
  parent_id :: string
  parent_identifier :: string
  parent_title :: string

text \<open>The children of an issue are fetched with id, identifier, title and state only,
  and \<open>issueToTask\<close> reads nothing but their state type.\<close>

record LinearChild =
  child_id :: string
  child_identifier :: string
  child_title :: string
  child_state :: LinearState

record LinearProject =
  project_id :: string
  project_name :: string

record LinearIssue =
  issue_id :: string
  issue_identifier :: string
  issue_title :: string
  issue_description :: "string option"
  issue_priority :: int
  issue_state :: LinearState
  issue_labels :: "LinearLabel list"
  issue_assignee :: "LinearUser option"
  issue_parent :: "LinearParent option"
  issue_children :: "LinearChild list option"
  issue_project :: "LinearProject option"
  issue_createdAt :: string
  issue_updatedAt :: string

record LinearTeam =
  team_id :: string
  team_name :: string
  team_key :: string
  team_states :: "LinearState list"

datatype TrackerTaskStatus = Open | In_progress | Blocked | Completed | Cancelled

record TaskMetadata =
  meta_identifier :: string
  meta_stateId :: string
  meta_stateName :: string
  meta_projectId :: "string option"
  meta_projectName :: "string option"
  meta_childCount :: nat
  meta_completedChildCount :: nat

record TrackerTask =
  task_id :: string
  task_title :: string
  task_status :: TrackerTaskStatus
  task_priority :: int
  task_description :: "string option"
  task_labels :: "string list option"
  task_type :: "string option"
  task_parentId :: "string option"
  task_dependsOn :: "string list option"
  task_blocks :: "string list option"
  task_assignee :: "string option"
  task_createdAt :: "string option"
  task_updatedAt :: "string option"
  task_iteration :: "int option"
  task_metadata :: "TaskMetadata option"

text \<open>A filter field of type \<open>T | T[]\<close>.\<close>

datatype 'a one_or_many = One 'a | Many "'a list"

record TaskFilter =
  filter_status :: "TrackerTaskStatus one_or_many option"
  filter_labels :: "string list option"
  filter_priority :: "int one_or_many option"
  filter_parentId :: "string option"
  filter_assignee :: "string option"
  filter_type :: "string one_or_many option"
  filter_ready :: "bool option"
  filter_limit :: "int option"
  filter_offset :: "int option"
  filter_excludeIds :: "string list option"

record TaskCompletionResult =
  completion_success :: bool
  completion_message :: string
  completion_task :: "TrackerTask option"
  completion_error :: "string option"

record SyncResult =
  sync_success :: bool
  sync_message :: string
  sync_added :: "nat option"
  sync_updated :: "nat option"
  sync_removed :: "nat option"
  sync_error :: "string option"
  sync_syncedAt :: string

record ConflictInfo =
  taskId :: string
  localVersion :: TrackerTask
  remoteVersion :: TrackerTask
  localUpdatedAt :: string
  remoteUpdatedAt :: string
  changedFields :: "string list"

datatype Resolution = Local | Remote | Merge

section \<open>Helper functions\<close>

text \<open>JavaScript truthiness of an optional string: \<open>undefined\<close> and the empty
  string are falsy.\<close>

definition truthy :: "string option \<Rightarrow> bool" where
  "truthy s = (case s of None \<Rightarrow> False | Some v \<Rightarrow> v \<noteq> [])"

text \<open>\<open>mapStateToStatus\<close>: the \<open>switch\<close> with its \<open>default\<close> branch.\<close>

definition mapStateToStatus :: "LinearStateType \<Rightarrow> TrackerTaskStatus" where
  "mapStateToStatus stateType =
     (if stateType = ''backlog'' \<or> stateType = ''unstarted'' then Open
      else if stateType = ''started'' then In_progress
      else if stateType = ''completed'' then Completed
      else if stateType = ''canceled'' then Cancelled
      else Open)"

text \<open>\<open>mapStatusToStateType\<close>: the five cases in the order of the source. Its
  \<open>default\<close> branch (\<open>unstarted\<close>) is unreachable for a value of the status type.\<close>

fun mapStatusToStateType :: "TrackerTaskStatus \<Rightarrow> LinearStateType" where
  "mapStatusToStateType Open = ''unstarted''"
| "mapStatusToStateType In_progress = ''started''"
| "mapStatusToStateType Completed = ''completed''"
| "mapStatusToStateType Cancelled = ''canceled''"
| "mapStatusToStateType Blocked = ''started''"

text \<open>\<open>mapPriority\<close>, on integer priorities.\<close>

definition mapPriority :: "int \<Rightarrow> int" where
  "mapPriority linearPriority =
     (if linearPriority = 0 then 2 else min 4 (max 0 (linearPriority - 1)))"

text \<open>\<open>String.prototype.toLowerCase\<close> on the ASCII letters.\<close>

definition lowerChar :: "char \<Rightarrow> char" where
  "lowerChar c =
     (case map_of (zip ''ABCDEFGHIJKLMNOPQRSTUVWXYZ'' ''abcdefghijklmnopqrstuvwxyz'') c of
        None \<Rightarrow> c
      | Some l \<Rightarrow> l)"

definition toLowerCase :: "string \<Rightarrow> string" where
  "toLowerCase s = map lowerChar s"

definition isDoneType :: "LinearStateType \<Rightarrow> bool" where
  "isDoneType ty = (ty = ''completed'' \<or> ty = ''canceled'')"

definition issueToTask :: "LinearIssue \<Rightarrow> TrackerTask" where
  "issueToTask issue =
     (let labels = map label_name (issue_labels issue);
          isEpic = list_ex (\<lambda>l. toLowerCase l = ''epic'') labels
      in \<lparr> task_id = issue_id issue,
           task_title = issue_identifier issue @ '': '' @ issue_title issue,
           task_status = mapStateToStatus (state_type (issue_state issue)),
           task_priority = mapPriority (issue_priority issue),
           task_description = issue_description issue,
           task_labels = Some labels,
           task_type = Some (if isEpic then ''epic'' else ''task''),
           task_parentId = map_option parent_id (issue_parent issue),
           task_dependsOn = None,
           task_blocks = None,
           task_assignee = map_option user_email (issue_assignee issue),
           task_createdAt = Some (issue_createdAt issue),
           task_updatedAt = Some (issue_updatedAt issue),
           task_iteration = None,
           task_metadata = Some
             \<lparr> meta_identifier = issue_identifier issue,
               meta_stateId = state_id (issue_state issue),
               meta_stateName = state_name (issue_state issue),
               meta_projectId = map_option project_id (issue_project issue),
               meta_projectName = map_option project_name (issue_project issue),
               meta_childCount =
                 (case issue_children issue of None \<Rightarrow> 0 | Some cs \<Rightarrow> length cs),
               meta_completedChildCount =
                 (case issue_children issue of None \<Rightarrow> 0
                  | Some cs \<Rightarrow>
                      length (filter (\<lambda>c. isDoneType (state_type (child_state c))) cs)) \<rparr> \<rparr>)"

text \<open>\<open>checkTaskReady\<close>: \<open>find\<close> returns the first task with the dependency's id.\<close>

definition checkTaskReady :: "TrackerTask \<Rightarrow> TrackerTask list \<Rightarrow> bool" where
  "checkTaskReady task allTasks =
     (case task_dependsOn task of
        None \<Rightarrow> True
      | Some deps \<Rightarrow>
          if deps = [] then True
          else list_all (\<lambda>depId.
                 case find (\<lambda>t. task_id t = depId) allTasks of
                   None \<Rightarrow> True
                 | Some depTask \<Rightarrow>
                     task_status depTask = Completed \<or> task_status depTask = Cancelled) deps)"

fun toArray :: "'a one_or_many \<Rightarrow> 'a list" where
  "toArray (One v) = [v]"
| "toArray (Many vs) = vs"

text \<open>\<open>filterTasks\<close>, one step per \<open>if\<close> of the source, in the source's order. A
  criterion is applied when its field is truthy: a list is truthy even when empty, a
  string only when non-empty, a number only when non-zero.\<close>

definition byStatus :: "TaskFilter \<Rightarrow> TrackerTask list \<Rightarrow> TrackerTask list" where
  "byStatus f result =
     (case filter_status f of
        None \<Rightarrow> result
      | Some st \<Rightarrow> filter (\<lambda>t. task_status t \<in> set (toArray st)) result)"

definition byLabels :: "TaskFilter \<Rightarrow> TrackerTask list \<Rightarrow> TrackerTask list" where
  "byLabels f result =
     (case filter_labels f of
        None \<Rightarrow> result
      | Some ls \<Rightarrow>
          if ls = [] then result
          else filter (\<lambda>t. list_all (\<lambda>label.
                 case task_labels t of None \<Rightarrow> False | Some tls \<Rightarrow> label \<in> set tls) ls) result)"

definition byPriority :: "TaskFilter \<Rightarrow> TrackerTask list \<Rightarrow> TrackerTask list" where
  "byPriority f result =
     (case filter_priority f of
        None \<Rightarrow> result
      | Some pr \<Rightarrow> filter (\<lambda>t. task_priority t \<in> set (toArray pr)) result)"

definition byParentId :: "TaskFilter \<Rightarrow> TrackerTask list \<Rightarrow> TrackerTask list" where
  "byParentId f result =
     (if truthy (filter_parentId f)
      then filter (\<lambda>t. task_parentId t = filter_parentId f) result
      else result)"

definition byAssignee :: "TaskFilter \<Rightarrow> TrackerTask list \<Rightarrow> TrackerTask list" where
  "byAssignee f result =
     (if truthy (filter_assignee f)
      then filter (\<lambda>t. task_assignee t = filter_assignee f) result
      else result)"

definition byType :: "TaskFilter \<Rightarrow> TrackerTask list \<Rightarrow> TrackerTask list" where
  "byType f result =
     (case filter_type f of
        None \<Rightarrow> result
      | Some ty \<Rightarrow>
          if ty = One [] then result
          else filter (\<lambda>t.
                 case task_type t of
                   None \<Rightarrow> False
                 | Some v \<Rightarrow> v \<noteq> [] \<and> v \<in> set (toArray ty)) result)"

definition byExcludeIds :: "TaskFilter \<Rightarrow> TrackerTask list \<Rightarrow> TrackerTask list" where
  "byExcludeIds f result =
     (case filter_excludeIds f of
        None \<Rightarrow> result
      | Some ex \<Rightarrow>
          if ex = [] then result else filter (\<lambda>t. task_id t \<notin> set ex) result)"

definition byReady :: "TaskFilter \<Rightarrow> TrackerTask list \<Rightarrow> TrackerTask list \<Rightarrow> TrackerTask list" where
  "byReady f tasks result =
     (if filter_ready f = Some True
      then filter (\<lambda>t. checkTaskReady t tasks) result
      else result)"

definition sliceOffset :: "TaskFilter \<Rightarrow> TrackerTask list \<Rightarrow> TrackerTask list" where
  "sliceOffset f result =
     (case filter_offset f of
        None \<Rightarrow> result
      | Some off \<Rightarrow> if off > 0 then drop (nat off) result else result)"

definition sliceLimit :: "TaskFilter \<Rightarrow> TrackerTask list \<Rightarrow> TrackerTask list" where
  "sliceLimit f result =
     (case filter_limit f of
        None \<Rightarrow> result
      | Some lim \<Rightarrow> if lim > 0 then take (nat lim) result else result)"

definition filterTasks :: "TrackerTask list \<Rightarrow> TaskFilter option \<Rightarrow> TrackerTask list" where
  "filterTasks tasks filter_opt =
     (case filter_opt of
        None \<Rightarrow> tasks
      | Some f \<Rightarrow>
          sliceLimit f (sliceOffset f (byReady f tasks (byExcludeIds f (byType f
            (byAssignee f (byParentId f (byPriority f (byLabels f (byStatus f tasks))))))))))"

section \<open>The API client\<close>

text \<open>A rejected promise (a thrown \<open>Error\<close>) with its message.\<close>

datatype exn = Error string

record IssueUpdateInput =
  input_stateId :: "string option"
  input_assigneeId :: "string option"
  input_labelIds :: "string list option"
  input_description :: "string option"

text \<open>
  The transport behind \<open>LinearApiClient.query\<close> is outside the engine. It is a
  parameter: for each GraphQL document of the client, a function from the state \<open>'w\<close>
  of the remote service to the reply (the \<open>data\<close> of the response, or the error that
  \<open>query\<close> throws) and the next state of the service. Nothing is assumed about these
  functions, so every reply and every failure is covered.
\<close>

record 'w LinearApiClient =
  viewerQuery :: "'w \<Rightarrow> (exn + LinearUser) \<times> 'w"
  teamQuery :: "string \<Rightarrow> 'w \<Rightarrow> (exn + LinearTeam) \<times> 'w"
  issuesByLabelQuery :: "string \<Rightarrow> string \<Rightarrow> 'w \<Rightarrow> (exn + LinearIssue list) \<times> 'w"
  issueQuery :: "string \<Rightarrow> 'w \<Rightarrow> (exn + LinearIssue) \<times> 'w"
  issueUpdateMutation ::
    "string \<Rightarrow> IssueUpdateInput \<Rightarrow> 'w \<Rightarrow> (exn + bool \<times> LinearIssue) \<times> 'w"
  commentCreateMutation :: "string \<Rightarrow> string \<Rightarrow> 'w \<Rightarrow> (exn + unit) \<times> 'w"
  epicsQuery :: "string \<Rightarrow> 'w \<Rightarrow> (exn + LinearIssue list) \<times> 'w"

text \<open>The methods of \<open>LinearApiClient\<close> (prefixed \<open>api_\<close>: the plugin has a
  \<open>getEpics\<close> of its own).\<close>

definition api_getViewer :: "'w LinearApiClient \<Rightarrow> 'w \<Rightarrow> (exn + LinearUser) \<times> 'w" where
  "api_getViewer c w = viewerQuery c w"

definition api_getTeam :: "'w LinearApiClient \<Rightarrow> string \<Rightarrow> 'w \<Rightarrow> (exn + LinearTeam) \<times> 'w" where
  "api_getTeam c tid w = teamQuery c tid w"

definition api_getIssuesByLabel ::
  "'w LinearApiClient \<Rightarrow> string \<Rightarrow> string \<Rightarrow> 'w \<Rightarrow> (exn + LinearIssue list) \<times> 'w" where
  "api_getIssuesByLabel c pid lname w = issuesByLabelQuery c pid lname w"

definition api_getIssue :: "'w LinearApiClient \<Rightarrow> string \<Rightarrow> 'w \<Rightarrow> (exn + LinearIssue) \<times> 'w" where
  "api_getIssue c issueId w = issueQuery c issueId w"

definition api_updateIssue ::
  "'w LinearApiClient \<Rightarrow> string \<Rightarrow> IssueUpdateInput \<Rightarrow> 'w \<Rightarrow> (exn + LinearIssue) \<times> 'w" where
  "api_updateIssue c issueId input w =
     (case issueUpdateMutation c issueId input w of
        (Inl e, w') \<Rightarrow> (Inl e, w')
      | (Inr (success, issue), w') \<Rightarrow>
          if \<not> success then (Inl (Error ''Failed to update issue''), w')
          else (Inr issue, w'))"

definition api_addComment ::
  "'w LinearApiClient \<Rightarrow> string \<Rightarrow> string \<Rightarrow> 'w \<Rightarrow> (exn + unit) \<times> 'w" where
  "api_addComment c issueId body w = commentCreateMutation c issueId body w"

definition api_getStates ::
  "'w LinearApiClient \<Rightarrow> string \<Rightarrow> 'w \<Rightarrow> (exn + LinearState list) \<times> 'w" where
  "api_getStates c tid w =
     (case api_getTeam c tid w of
        (Inl e, w') \<Rightarrow> (Inl e, w')
      | (Inr team, w') \<Rightarrow> (Inr (team_states team), w'))"

definition api_getEpics ::
  "'w LinearApiClient \<Rightarrow> string \<Rightarrow> 'w \<Rightarrow> (exn + LinearIssue list) \<times> 'w" where
  "api_getEpics c pid w = epicsQuery c pid w"

section \<open>The tracker plugin\<close>

record SyncedEntry =
  synced_task :: TrackerTask
  synced_updatedAt :: string

text \<open>The private fields of \<open>LinearTrackerPlugin\<close> that its operations read or write.\<close>

record 'w LinearTrackerPlugin =
  client :: "'w LinearApiClient option"
  ready :: bool
  projectId :: string
  teamId :: string
  labelName :: string
  userId :: string
  epicId :: string
  taskCache :: "string \<rightharpoonup> TrackerTask"
  stateCache :: "string \<rightharpoonup> LinearState list"
  lastSyncedTasks :: "string \<rightharpoonup> SyncedEntry"

text \<open>
  An operation takes the plugin and the state of the remote service and returns its
  result with both updated. The result is \<open>Inr\<close> for a fulfilled promise and \<open>Inl\<close>
  for a rejected one: a \<open>try\<close>/\<open>catch\<close> of the source is the place where an \<open>Inl\<close> of
  a callee becomes an \<open>Inr\<close> of the operation. \<open>console.error\<close> has no effect on the
  state and is left out.
\<close>

type_synonym ('a, 'w) op_result = "(exn + 'a) \<times> 'w LinearTrackerPlugin \<times> 'w"

definition getTeamStates :: "'w LinearTrackerPlugin \<Rightarrow> 'w \<Rightarrow> (LinearState list, 'w) op_result" where
  "getTeamStates p w =
     (case client p of
        None \<Rightarrow> (Inr [], p, w)
      | Some c \<Rightarrow>
          if teamId p = [] then (Inr [], p, w)
          else (case stateCache p (teamId p) of
                  Some states \<Rightarrow> (Inr states, p, w)
                | None \<Rightarrow>
                    (case api_getStates c (teamId p) w of
                       (Inl e, w') \<Rightarrow> (Inl e, p, w')
                     | (Inr states, w') \<Rightarrow>
                         (Inr states,
                          p\<lparr>stateCache := (stateCache p)(teamId p \<mapsto> states)\<rparr>, w'))))"

definition findStateByType ::
  "LinearStateType \<Rightarrow> 'w LinearTrackerPlugin \<Rightarrow> 'w \<Rightarrow> (string option, 'w) op_result" where
  "findStateByType targetType p w =
     (case getTeamStates p w of
        (Inl e, p', w') \<Rightarrow> (Inl e, p', w')
      | (Inr states, p', w') \<Rightarrow>
          (Inr (map_option state_id (find (\<lambda>s. state_type s = targetType) states)), p', w'))"

definition cacheAll :: "TrackerTask list \<Rightarrow> (string \<rightharpoonup> TrackerTask) \<Rightarrow> (string \<rightharpoonup> TrackerTask)" where
  "cacheAll tasks m = fold (\<lambda>task acc. acc(task_id task \<mapsto> task)) tasks m"

definition getTasks ::
  "TaskFilter option \<Rightarrow> 'w LinearTrackerPlugin \<Rightarrow> 'w \<Rightarrow> (TrackerTask list, 'w) op_result" where
  "getTasks filter_opt p w =
     (case client p of
        None \<Rightarrow> (Inr [], p, w)
      | Some c \<Rightarrow>
          if projectId p = [] then (Inr [], p, w)
          else (case api_getIssuesByLabel c (projectId p) (labelName p) w of
                  (Inl e, w') \<Rightarrow> (Inr [], p, w')
                | (Inr issues, w') \<Rightarrow>
                    (let tasks = map issueToTask issues
                     in (Inr (filterTasks tasks filter_opt),
                         p\<lparr>taskCache := cacheAll tasks (taskCache p)\<rparr>, w'))))"

definition getTask ::
  "string \<Rightarrow> 'w LinearTrackerPlugin \<Rightarrow> 'w \<Rightarrow> (TrackerTask option, 'w) op_result" where
  "getTask ident p w =
     (case taskCache p ident of
        Some t \<Rightarrow> (Inr (Some t), p, w)
      | None \<Rightarrow>
          (case client p of
             None \<Rightarrow> (Inr None, p, w)
           | Some c \<Rightarrow>
               (case api_getIssue c ident w of
                  (Inl e, w') \<Rightarrow> (Inr None, p, w')
                | (Inr issue, w') \<Rightarrow>
                    (let task = issueToTask issue
                     in (Inr (Some task), p\<lparr>taskCache := (taskCache p)(ident \<mapsto> task)\<rparr>, w')))))"

definition emptyFilter :: TaskFilter where
  "emptyFilter =
     \<lparr> filter_status = None, filter_labels = None, filter_priority = None,
       filter_parentId = None, filter_assignee = None, filter_type = None,
       filter_ready = None, filter_limit = None, filter_offset = None,
       filter_excludeIds = None \<rparr>"

text \<open>The filter \<open>{...filter, status: ['open', 'in_progress'], ready: true}\<close>.\<close>

definition nextTaskFilter :: "TaskFilter option \<Rightarrow> TaskFilter" where
  "nextTaskFilter filter_opt =
     (case filter_opt of None \<Rightarrow> emptyFilter | Some f \<Rightarrow> f)
       \<lparr> filter_status := Some (Many [Open, In_progress]), filter_ready := Some True \<rparr>"

text \<open>\<open>Array.prototype.sort\<close> is stable, as \<open>sort_key\<close> is; \<open>tasks[0]\<close> of an
  empty array is \<open>undefined\<close>.\<close>

definition pickNext :: "TrackerTask list \<Rightarrow> TrackerTask option" where
  "pickNext tasks =
     (if tasks = [] then None
      else let sorted = sort_key task_priority tasks
           in case find (\<lambda>t. task_status t = In_progress) sorted of
                Some inProgress \<Rightarrow> Some inProgress
              | None \<Rightarrow> (case sorted of [] \<Rightarrow> None | t # _ \<Rightarrow> Some t))"

definition getNextTask ::
  "TaskFilter option \<Rightarrow> 'w LinearTrackerPlugin \<Rightarrow> 'w \<Rightarrow> (TrackerTask option, 'w) op_result" where
  "getNextTask filter_opt p w =
     (case getTasks (Some (nextTaskFilter filter_opt)) p w of
        (Inl e, p', w') \<Rightarrow> (Inl e, p', w')
      | (Inr tasks, p', w') \<Rightarrow> (Inr (pickNext tasks), p', w'))"

text \<open>\<open>String(n)\<close> for a natural number, used in the message of \<open>sync\<close>.\<close>

definition digitChar :: "nat \<Rightarrow> char" where
  "digitChar d = ''0123456789'' ! d"

fun showNat :: "nat \<Rightarrow> string" where
  "showNat n =
     (if n < 10 then [digitChar n]
      else showNat (n div 10) @ [digitChar (n mod 10)])"

declare showNat.simps [simp del]

definition errMessage :: "exn \<Rightarrow> string" where
  "errMessage e = (case e of Error m \<Rightarrow> m)"

definition completeFailed :: "string \<Rightarrow> exn \<Rightarrow> TaskCompletionResult" where
  "completeFailed ident e =
     \<lparr> completion_success = False,
       completion_message = ''Failed to complete task '' @ ident,
       completion_task = None,
       completion_error = Some (errMessage e) \<rparr>"

definition completeTask ::
  "string \<Rightarrow> string option \<Rightarrow> 'w LinearTrackerPlugin \<Rightarrow> 'w \<Rightarrow> (TaskCompletionResult, 'w) op_result" where
  "completeTask ident reason p w =
     (case client p of
        None \<Rightarrow>
          (Inr \<lparr> completion_success = False,
                 completion_message = ''Linear client not initialized'',
                 completion_task = None,
                 completion_error = Some ''Client not ready'' \<rparr>, p, w)
      | Some c \<Rightarrow>
          (case findStateByType ''completed'' p w of
             (Inl e, p1, w1) \<Rightarrow> (Inr (completeFailed ident e), p1, w1)
           | (Inr completedStateId, p1, w1) \<Rightarrow>
               if \<not> truthy completedStateId then
                 (Inr \<lparr> completion_success = False,
                        completion_message = ''Could not find completed state'',
                        completion_task = None,
                        completion_error = Some ''No completed state found in team workflow'' \<rparr>,
                  p1, w1)
               else
                 (case api_updateIssue c ident
                         \<lparr> input_stateId = completedStateId, input_assigneeId = None,
                           input_labelIds = None, input_description = None \<rparr> w1 of
                    (Inl e, w2) \<Rightarrow> (Inr (completeFailed ident e), p1, w2)
                  | (Inr updatedIssue, w2) \<Rightarrow>
                      (case (case reason of
                               None \<Rightarrow> (Inr (), w2)
                             | Some r \<Rightarrow>
                                 if r = [] then (Inr (), w2)
                                 else api_addComment c ident
                                        (''Task completed by ralph-tui: '' @ r) w2) of
                         (Inl e, w3) \<Rightarrow> (Inr (completeFailed ident e), p1, w3)
                       | (Inr u, w3) \<Rightarrow>
                           (let task = issueToTask updatedIssue
                            in (Inr \<lparr> completion_success = True,
                                      completion_message =
                                        ''Task '' @ issue_identifier updatedIssue
                                          @ '' marked as complete'',
                                      completion_task = Some task,
                                      completion_error = None \<rparr>,
                                p1\<lparr>taskCache := (taskCache p1)(ident \<mapsto> task)\<rparr>, w3))))))"

definition updateTaskStatus ::
  "string \<Rightarrow> TrackerTaskStatus \<Rightarrow> 'w LinearTrackerPlugin \<Rightarrow> 'w \<Rightarrow> (TrackerTask option, 'w) op_result" where
  "updateTaskStatus ident status p w =
     (case client p of
        None \<Rightarrow> (Inr None, p, w)
      | Some c \<Rightarrow>
          (case findStateByType (mapStatusToStateType status) p w of
             (Inl e, p1, w1) \<Rightarrow> (Inr None, p1, w1)
           | (Inr stateId, p1, w1) \<Rightarrow>
               if \<not> truthy stateId then (Inr None, p1, w1)
               else
                 (case api_updateIssue c ident
                         \<lparr> input_stateId = stateId, input_assigneeId = None,
                           input_labelIds = None, input_description = None \<rparr> w1 of
                    (Inl e, w2) \<Rightarrow> (Inr None, p1, w2)
                  | (Inr updatedIssue, w2) \<Rightarrow>
                      (let task = issueToTask updatedIssue
                       in (Inr (Some task),
                           p1\<lparr>taskCache := (taskCache p1)(ident \<mapsto> task)\<rparr>, w2)))))"

definition claimTask ::
  "string \<Rightarrow> 'w LinearTrackerPlugin \<Rightarrow> 'w \<Rightarrow> (TrackerTask option, 'w) op_result" where
  "claimTask ident p w =
     (case client p of
        None \<Rightarrow> (Inr None, p, w)
      | Some c \<Rightarrow>
          if userId p = [] then (Inr None, p, w)
          else
            (case findStateByType ''started'' p w of
               (Inl e, p1, w1) \<Rightarrow> (Inr None, p1, w1)
             | (Inr inProgressStateId, p1, w1) \<Rightarrow>
                 (case api_updateIssue c ident
                         \<lparr> input_stateId = inProgressStateId,
                           input_assigneeId = Some (userId p1),
                           input_labelIds = None, input_description = None \<rparr> w1 of
                    (Inl e, w2) \<Rightarrow> (Inr None, p1, w2)
                  | (Inr updatedIssue, w2) \<Rightarrow>
                      (let task = issueToTask updatedIssue
                       in (Inr (Some task),
                           p1\<lparr> taskCache := (taskCache p1)(ident \<mapsto> task),
                               lastSyncedTasks := (lastSyncedTasks p1)(ident \<mapsto>
                                 \<lparr> synced_task = task,
                                   synced_updatedAt = issue_updatedAt updatedIssue \<rparr>) \<rparr>,
                           w2)))))"

definition isDone :: "TrackerTask \<Rightarrow> bool" where
  "isDone t = (task_status t = Completed \<or> task_status t = Cancelled)"

definition isComplete ::
  "TaskFilter option \<Rightarrow> 'w LinearTrackerPlugin \<Rightarrow> 'w \<Rightarrow> (bool, 'w) op_result" where
  "isComplete filter_opt p w =
     (case getTasks filter_opt p w of
        (Inl e, p', w') \<Rightarrow> (Inl e, p', w')
      | (Inr tasks, p', w') \<Rightarrow> (Inr (list_all isDone tasks), p', w'))"

text \<open>The body of the loop of \<open>sync\<close>: the counters, the cache and the baseline store
  after one issue.\<close>

definition syncIssue ::
  "LinearIssue \<Rightarrow> nat \<times> nat \<times> (string \<rightharpoonup> TrackerTask) \<times> (string \<rightharpoonup> SyncedEntry)
     \<Rightarrow> nat \<times> nat \<times> (string \<rightharpoonup> TrackerTask) \<times> (string \<rightharpoonup> SyncedEntry)" where
  "syncIssue issue acc =
     (case acc of (added, updated, cache, synced) \<Rightarrow>
        (let task = issueToTask issue;
             added' = (case cache (task_id task) of None \<Rightarrow> added + 1 | Some cached \<Rightarrow> added);
             updated' = (case cache (task_id task) of
                           None \<Rightarrow> updated
                         | Some cached \<Rightarrow>
                             if task_updatedAt cached \<noteq> task_updatedAt task
                             then updated + 1 else updated)
         in (added', updated', cache(task_id task \<mapsto> task),
             synced(task_id task \<mapsto>
               \<lparr> synced_task = task, synced_updatedAt = issue_updatedAt issue \<rparr>))))"

text \<open>\<open>sync\<close>; \<open>now\<close> is the value of \<open>new Date().toISOString()\<close> when the result
  is built.\<close>

definition sync :: "string \<Rightarrow> 'w LinearTrackerPlugin \<Rightarrow> 'w \<Rightarrow> (SyncResult, 'w) op_result" where
  "sync now p w =
     (let notReady =
            \<lparr> sync_success = False, sync_message = ''Linear client not initialized'',
              sync_added = None, sync_updated = None, sync_removed = None,
              sync_error = Some ''Client not ready'', sync_syncedAt = now \<rparr>
      in case client p of
           None \<Rightarrow> (Inr notReady, p, w)
         | Some c \<Rightarrow>
             if projectId p = [] then (Inr notReady, p, w)
             else
               (case api_getIssuesByLabel c (projectId p) (labelName p) w of
                  (Inl e, w') \<Rightarrow>
                    (Inr \<lparr> sync_success = False, sync_message = ''Failed to sync with Linear'',
                           sync_added = None, sync_updated = None, sync_removed = None,
                           sync_error = Some (errMessage e), sync_syncedAt = now \<rparr>, p, w')
                | (Inr issues, w') \<Rightarrow>
                    (case fold syncIssue issues (0, 0, taskCache p, lastSyncedTasks p) of
                       (added, updated, cache, synced) \<Rightarrow>
                         (Inr \<lparr> sync_success = True,
                                sync_message =
                                  ''Synced '' @ showNat (length issues) @ '' tasks from Linear'',
                                sync_added = Some added, sync_updated = Some updated,
                                sync_removed = None, sync_error = None, sync_syncedAt = now \<rparr>,
                          p\<lparr>taskCache := cache, lastSyncedTasks := synced\<rparr>, w'))))"

definition isTaskReady :: "string \<Rightarrow> 'w LinearTrackerPlugin \<Rightarrow> 'w \<Rightarrow> (bool, 'w) op_result" where
  "isTaskReady ident p w =
     (case getTask ident p w of
        (Inl e, p1, w1) \<Rightarrow> (Inl e, p1, w1)
      | (Inr None, p1, w1) \<Rightarrow> (Inr False, p1, w1)
      | (Inr (Some task), p1, w1) \<Rightarrow>
          (case getTasks None p1 w1 of
             (Inl e, p2, w2) \<Rightarrow> (Inl e, p2, w2)
           | (Inr allTasks, p2, w2) \<Rightarrow> (Inr (checkTaskReady task allTasks), p2, w2)))"

text \<open>The list \<open>changedFields\<close> of \<open>detectConflict\<close>, in the order of its four tests.\<close>

definition diffFields :: "TrackerTask \<Rightarrow> TrackerTask \<Rightarrow> string list" where
  "diffFields localTask remoteTask =
     (if task_status localTask \<noteq> task_status remoteTask then [''status''] else [])
     @ (if task_title localTask \<noteq> task_title remoteTask then [''title''] else [])
     @ (if task_description localTask \<noteq> task_description remoteTask then [''description''] else [])
     @ (if task_assignee localTask \<noteq> task_assignee remoteTask then [''assignee''] else [])"

definition detectConflict ::
  "string \<Rightarrow> 'w LinearTrackerPlugin \<Rightarrow> 'w \<Rightarrow> (ConflictInfo option, 'w) op_result" where
  "detectConflict tid p w =
     (case client p of
        None \<Rightarrow> (Inr None, p, w)
      | Some c \<Rightarrow>
          (case lastSyncedTasks p tid of
             None \<Rightarrow> (Inr None, p, w)
           | Some lastSynced \<Rightarrow>
               (case api_getIssue c tid w of
                  (Inl e, w') \<Rightarrow> (Inr None, p, w')
                | (Inr remoteIssue, w') \<Rightarrow>
                    (let remoteTask = issueToTask remoteIssue
                     in if issue_updatedAt remoteIssue \<noteq> synced_updatedAt lastSynced
                        then (let fields = diffFields (synced_task lastSynced) remoteTask
                              in if fields \<noteq> []
                                 then (Inr (Some
                                         \<lparr> taskId = tid,
                                           localVersion = synced_task lastSynced,
                                           remoteVersion = remoteTask,
                                           localUpdatedAt = synced_updatedAt lastSynced,
                                           remoteUpdatedAt = issue_updatedAt remoteIssue,
                                           changedFields = fields \<rparr>), p, w')
                                 else (Inr None, p, w'))
                        else (Inr None, p, w')))))"

text \<open>\<open>resolveConflict\<close>. The branch for \<open>local\<close> has no \<open>try\<close>/\<open>catch\<close>: a failure
  of \<open>findStateByType\<close> or \<open>updateIssue\<close> there rejects the promise. Any resolution
  other than \<open>remote\<close> and an applicable \<open>local\<close> reaches the last \<open>return\<close>.\<close>

definition resolveConflict ::
  "string \<Rightarrow> Resolution \<Rightarrow> 'w LinearTrackerPlugin \<Rightarrow> 'w \<Rightarrow> (TrackerTask option, 'w) op_result" where
  "resolveConflict tid resolution p w =
     (case client p of
        None \<Rightarrow> (Inr None, p, w)
      | Some c \<Rightarrow>
          (case detectConflict tid p w of
             (Inl e, p1, w1) \<Rightarrow> (Inl e, p1, w1)
           | (Inr None, p1, w1) \<Rightarrow> getTask tid p1 w1
           | (Inr (Some conflict), p1, w1) \<Rightarrow>
               if resolution = Remote then
                 (Inr (Some (remoteVersion conflict)),
                  p1\<lparr> taskCache := (taskCache p1)(tid \<mapsto> remoteVersion conflict),
                      lastSyncedTasks := (lastSyncedTasks p1)(tid \<mapsto>
                        \<lparr> synced_task = remoteVersion conflict,
                          synced_updatedAt = remoteUpdatedAt conflict \<rparr>) \<rparr>, w1)
               else if resolution = Local then
                 (case findStateByType
                         (mapStatusToStateType (task_status (localVersion conflict))) p1 w1 of
                    (Inl e, p2, w2) \<Rightarrow> (Inl e, p2, w2)
                  | (Inr stateId, p2, w2) \<Rightarrow>
                      if truthy stateId then
                        (case api_updateIssue c tid
                                \<lparr> input_stateId = stateId, input_assigneeId = None,
                                  input_labelIds = None,
                                  input_description =
                                    task_description (localVersion conflict) \<rparr> w2 of
                           (Inl e, w3) \<Rightarrow> (Inl e, p2, w3)
                         | (Inr updated, w3) \<Rightarrow>
                             (let task = issueToTask updated
                              in (Inr (Some task),
                                  p2\<lparr> taskCache := (taskCache p2)(tid \<mapsto> task),
                                      lastSyncedTasks := (lastSyncedTasks p2)(tid \<mapsto>
                                        \<lparr> synced_task = task,
                                          synced_updatedAt = issue_updatedAt updated \<rparr>) \<rparr>,
                                  w3)))
                      else (Inr (Some (remoteVersion conflict)), p2, w2))
               else (Inr (Some (remoteVersion conflict)), p1, w1)))"

definition getEpics :: "'w LinearTrackerPlugin \<Rightarrow> 'w \<Rightarrow> (TrackerTask list, 'w) op_result" where
  "getEpics p w =
     (case client p of
        None \<Rightarrow> (Inr [], p, w)
      | Some c \<Rightarrow>
          if projectId p = [] then (Inr [], p, w)
          else (case api_getEpics c (projectId p) w of
                  (Inl e, w') \<Rightarrow> (Inr [], p, w')
                | (Inr epics, w') \<Rightarrow> (Inr (map issueToTask epics), p, w')))"

section \<open>The filter criteria, as the specification words them\<close>











section \<open>Fixtures for the examples\<close>

text \<open>
  A remote service that serves a fixed list of issues and workflow states, accepts or
  rejects every update according to a flag, and counts the requests it has answered;
  a plugin connected to it; and the task collections of the examples.
\<close>

definition mkState :: "string \<Rightarrow> LinearStateType \<Rightarrow> LinearState" where
  "mkState sid ty = \<lparr> state_id = sid, state_name = ty, state_type = ty \<rparr>"

definition mkIssue :: "string \<Rightarrow> string \<Rightarrow> LinearStateType \<Rightarrow> int \<Rightarrow> string \<Rightarrow> LinearIssue" where
  "mkIssue ident title ty prio stamp =
     \<lparr> issue_id = ident, issue_identifier = ''ENG-'' @ ident, issue_title = title,
       issue_description = None, issue_priority = prio,
       issue_state = mkState (''state-'' @ ty) ty, issue_labels = [],
       issue_assignee = None, issue_parent = None, issue_children = None,
       issue_project = None, issue_createdAt = ''2024-01-01'', issue_updatedAt = stamp \<rparr>"

definition notFound :: exn where
  "notFound = Error ''Linear GraphQL error: Entity not found''"

definition stubClient :: "LinearIssue list \<Rightarrow> LinearState list \<Rightarrow> bool \<Rightarrow> nat LinearApiClient" where
  "stubClient issues states accept =
     \<lparr> viewerQuery = (\<lambda>w. (Inr \<lparr> user_id = ''u1'', user_name = ''Ada'',
                                   user_email = ''ada@example.com'' \<rparr>, Suc w)),
       teamQuery = (\<lambda>tid w. (Inr \<lparr> team_id = tid, team_name = ''Engineering'',
                                     team_key = ''ENG'', team_states = states \<rparr>, Suc w)),
       issuesByLabelQuery = (\<lambda>pid lname w. (Inr issues, Suc w)),
       issueQuery = (\<lambda>i w. case find (\<lambda>x. issue_id x = i) issues of
                              None \<Rightarrow> (Inl notFound, Suc w)
                            | Some x \<Rightarrow> (Inr x, Suc w)),
       issueUpdateMutation = (\<lambda>i input w. case find (\<lambda>x. issue_id x = i) issues of
                              None \<Rightarrow> (Inl notFound, Suc w)
                            | Some x \<Rightarrow> (Inr (accept, x), Suc w)),
       commentCreateMutation = (\<lambda>i body w. (Inr (), Suc w)),
       epicsQuery = (\<lambda>pid w. (Inr [], Suc w)) \<rparr>"

definition stubPlugin ::
  "nat LinearApiClient \<Rightarrow> (string \<rightharpoonup> TrackerTask) \<Rightarrow> (string \<rightharpoonup> SyncedEntry)
     \<Rightarrow> nat LinearTrackerPlugin" where
  "stubPlugin c cache synced =
     \<lparr> client = Some c, ready = True, projectId = ''proj'', teamId = ''team'',
       labelName = ''ralph-tui'', userId = ''u1'', epicId = [],
       taskCache = cache, stateCache = Map.empty, lastSyncedTasks = synced \<rparr>"

definition workflow :: "LinearState list" where
  "workflow = [mkState ''s-todo'' ''unstarted'', mkState ''s-doing'' ''started'',
               mkState ''s-done'' ''completed'']"

definition oldIssue :: LinearIssue where
  "oldIssue = mkIssue ''1'' ''Fix login'' ''unstarted'' 2 ''2024-05-01''"

definition newIssue :: LinearIssue where
  "newIssue = mkIssue ''1'' ''Fix login'' ''started'' 2 ''2024-05-02''"

definition oldEntry :: SyncedEntry where
  "oldEntry = \<lparr> synced_task = issueToTask oldIssue, synced_updatedAt = ''2024-05-01'' \<rparr>"

definition conflictClient :: "bool \<Rightarrow> nat LinearApiClient" where
  "conflictClient accept = stubClient [newIssue] workflow accept"

definition conflictPlugin :: "bool \<Rightarrow> nat LinearTrackerPlugin" where
  "conflictPlugin accept =
     stubPlugin (conflictClient accept)
       [''1'' \<mapsto> issueToTask oldIssue] [''1'' \<mapsto> oldEntry]"

definition issueA :: LinearIssue where
  "issueA = mkIssue ''A'' ''Write docs'' ''unstarted'' 4 ''2024-05-01''"

definition issueB :: LinearIssue where
  "issueB = mkIssue ''B'' ''Fix login'' ''started'' 2 ''2024-05-01''"

definition issueC :: LinearIssue where
  "issueC = mkIssue ''C'' ''Rotate keys'' ''unstarted'' 1 ''2024-05-01''"

definition boardClient :: "nat LinearApiClient" where
  "boardClient = stubClient [issueA, issueB, issueC] workflow True"

definition boardPlugin :: "nat LinearTrackerPlugin" where
  "boardPlugin = stubPlugin boardClient Map.empty Map.empty"

text \<open>A team whose workflow has no state of the given type.\<close>

definition narrowClient :: "LinearStateType \<Rightarrow> nat LinearApiClient" where
  "narrowClient missing =
     stubClient [oldIssue] (filter (\<lambda>s. state_type s \<noteq> missing) workflow) True"

definition narrowPlugin :: "LinearStateType \<Rightarrow> nat LinearTrackerPlugin" where
  "narrowPlugin missing =
     stubPlugin (narrowClient missing) [''1'' \<mapsto> issueToTask oldIssue] [''1'' \<mapsto> oldEntry]"

definition freshPlugin :: "LinearStateType \<Rightarrow> nat LinearTrackerPlugin" where
  "freshPlugin missing = stubPlugin (narrowClient missing) Map.empty Map.empty"

definition mkTask :: "string \<Rightarrow> TrackerTaskStatus \<Rightarrow> string list \<Rightarrow> string list \<Rightarrow> TrackerTask" where
  "mkTask ident status labels deps =
     \<lparr> task_id = ident, task_title = ''Task '' @ ident, task_status = status,
       task_priority = 2, task_description = None, task_labels = Some labels,
       task_type = Some ''task'', task_parentId = None,
       task_dependsOn = (if deps = [] then None else Some deps), task_blocks = None,
       task_assignee = None, task_createdAt = None, task_updatedAt = None,
       task_iteration = None, task_metadata = None \<rparr>"

definition fiveTasks :: "TrackerTask list" where
  "fiveTasks =
     [mkTask ''1'' Open [''urgent''] [], mkTask ''2'' Open [''later''] [],
      mkTask ''3'' In_progress [''urgent'', ''bug''] [], mkTask ''4'' Completed [''urgent''] [],
      mkTask ''5'' Blocked [] []]"

definition urgentFilter :: TaskFilter where
  "urgentFilter =
     emptyFilter \<lparr> filter_status := Some (Many [Open, In_progress]),
                   filter_labels := Some [''urgent''] \<rparr>"

definition depTasks :: "TrackerTask list" where
  "depTasks = [mkTask ''A'' Completed [] [], mkTask ''B'' Open [] []]"


section \<open>Evaluation rules for the examples\<close>

lemmas fixture_defs = mkState_def mkIssue_def notFound_def stubClient_def stubPlugin_def
  workflow_def oldIssue_def newIssue_def oldEntry_def conflictClient_def conflictPlugin_def
  issueA_def issueB_def issueC_def boardClient_def boardPlugin_def narrowClient_def
  narrowPlugin_def freshPlugin_def mkTask_def fiveTasks_def urgentFilter_def depTasks_def
  emptyFilter_def

lemmas api_defs = api_getViewer_def api_getTeam_def api_getIssuesByLabel_def api_getIssue_def
  api_updateIssue_def api_addComment_def api_getStates_def api_getEpics_def

lemmas task_defs = issueToTask_def mapStateToStatus_def mapPriority_def toLowerCase_def
  lowerChar_def isDoneType_def diffFields_def truthy_def Let_def


section \<open>Status and priority translation\<close>

text \<open>
  C6. \<open>toUnifiedStatus\<close> (\<open>mapStateToStatus\<close>) and \<open>toRemoteType\<close>
  (\<open>mapStatusToStateType\<close>) are total functions without an error result. The first
  maps backlog and unstarted to open, started to in-progress, completed to completed,
  canceled to cancelled, and every other input \<open>s\<close> to open. The second maps open to
  unstarted, in-progress and blocked to started, completed to completed, cancelled to
  canceled, and no status \<open>st\<close> to backlog.
\<close>

theorem status_translation_spec:
  "mapStateToStatus ''backlog'' = Open \<and> mapStateToStatus ''unstarted'' = Open
   \<and> mapStateToStatus ''started'' = In_progress
   \<and> mapStateToStatus ''completed'' = Completed
   \<and> mapStateToStatus ''canceled'' = Cancelled
   \<and> (s \<notin> {''backlog'', ''unstarted'', ''started'', ''completed'', ''canceled''}
        \<longrightarrow> mapStateToStatus s = Open)
   \<and> mapStatusToStateType Open = ''unstarted''
   \<and> mapStatusToStateType In_progress = ''started''
   \<and> mapStatusToStateType Blocked = ''started''
   \<and> mapStatusToStateType Completed = ''completed''
   \<and> mapStatusToStateType Cancelled = ''canceled''
   \<and> mapStatusToStateType st \<noteq> ''backlog''"
proof -
  have "mapStatusToStateType st \<noteq> ''backlog''" by (cases st) simp_all
  then show ?thesis by (simp add: mapStateToStatus_def)
qed

theorem status_translation_spec_witness:
  "''triage'' \<notin> {''backlog'', ''unstarted'', ''started'', ''completed'', ''canceled''}
   \<and> mapStateToStatus ''triage'' = Open"
  using status_translation_spec [of "''triage''" Open] by simp

text \<open>
  C8. \<open>mapPriority 0 = 2\<close>, and for every remote priority \<open>p\<close> other than 0,
  \<open>mapPriority p = min 4 (max 0 (p - 1))\<close>; in particular \<open>mapPriority 1 = 0\<close> and
  \<open>mapPriority 5 = 4\<close>, and every result lies in \<open>[0, 4]\<close>.
\<close>

theorem mapPriority_spec:
  "mapPriority 0 = 2
   \<and> (p \<noteq> 0 \<longrightarrow> mapPriority p = min 4 (max 0 (p - 1)))
   \<and> mapPriority 1 = 0 \<and> mapPriority 5 = 4
   \<and> 0 \<le> mapPriority p \<and> mapPriority p \<le> 4"
  by (simp add: mapPriority_def)

theorem mapPriority_spec_witness:
  "(3::int) \<noteq> 0 \<and> mapPriority 3 = 2 \<and> mapPriority (-7) = 0 \<and> mapPriority 9 = 4"
  using mapPriority_spec [of 3] mapPriority_spec [of "-7"] mapPriority_spec [of 9] by simp

section \<open>Dependency readiness\<close>

lemma find_distinct_key:
  "distinct (map f xs) \<Longrightarrow> (find (\<lambda>t. f t = d) xs = Some t) = (t \<in> set xs \<and> f t = d)"
  by (induction xs) (auto simp: image_iff)

lemma find_first_split:
  "find P xs = Some t \<longleftrightarrow> (\<exists>pre post. xs = pre @ t # post \<and> (\<forall>u\<in>set pre. \<not> P u) \<and> P t)"
proof (induction xs)
  case Nil
  then show ?case by simp
next
  case (Cons x xs)
  show ?case
  proof (cases "P x")
    case True
    have "(\<exists>pre post. x # xs = pre @ t # post \<and> (\<forall>u\<in>set pre. \<not> P u) \<and> P t) \<longleftrightarrow> x = t"
    proof
      assume "\<exists>pre post. x # xs = pre @ t # post \<and> (\<forall>u\<in>set pre. \<not> P u) \<and> P t"
      then obtain pre post where s: "x # xs = pre @ t # post" "\<forall>u\<in>set pre. \<not> P u"
        by blast
      with True show "x = t" by (cases pre) auto
    next
      assume "x = t"
      with True have "x # xs = [] @ t # xs \<and> (\<forall>u\<in>set []. \<not> P u) \<and> P t" by simp
      then show "\<exists>pre post. x # xs = pre @ t # post \<and> (\<forall>u\<in>set pre. \<not> P u) \<and> P t"
        by blast
    qed
    with True show ?thesis by simp
  next
    case False
    have "(\<exists>pre post. x # xs = pre @ t # post \<and> (\<forall>u\<in>set pre. \<not> P u) \<and> P t)
          \<longleftrightarrow> (\<exists>pre post. xs = pre @ t # post \<and> (\<forall>u\<in>set pre. \<not> P u) \<and> P t)"
    proof
      assume "\<exists>pre post. x # xs = pre @ t # post \<and> (\<forall>u\<in>set pre. \<not> P u) \<and> P t"
      then obtain pre post where s: "x # xs = pre @ t # post" "\<forall>u\<in>set pre. \<not> P u" "P t"
        by blast
      with False obtain pre' where "pre = x # pre'" by (cases pre) auto
      with s have "xs = pre' @ t # post \<and> (\<forall>u\<in>set pre'. \<not> P u) \<and> P t" by simp
      then show "\<exists>pre post. xs = pre @ t # post \<and> (\<forall>u\<in>set pre. \<not> P u) \<and> P t"
        by blast
    next
      assume "\<exists>pre post. xs = pre @ t # post \<and> (\<forall>u\<in>set pre. \<not> P u) \<and> P t"
      then obtain pre post where s: "xs = pre @ t # post" "\<forall>u\<in>set pre. \<not> P u" "P t"
        by blast
      with False have "x # xs = (x # pre) @ t # post \<and> (\<forall>u\<in>set (x # pre). \<not> P u) \<and> P t"
        by simp
      then show "\<exists>pre post. x # xs = pre @ t # post \<and> (\<forall>u\<in>set pre. \<not> P u) \<and> P t"
        by blast
    qed
    with False Cons.IH show ?thesis by simp
  qed
qed

text \<open>
  C5. A task without \<open>dependsOn\<close>, or with an empty one, is ready. Otherwise it is
  ready if and only if every dependency id matches no task of the supplied set or the
  task it matches is completed or cancelled. The task a dependency id matches is the
  first one of the set with that id; on a set whose ids are distinct (the data model's
  invariant for a fetch result) it is the only one, and then a dependency that is
  present and open or in progress makes the task not ready.
\<close>

theorem checkTaskReady_spec:
  "(task_dependsOn task = None \<longrightarrow> checkTaskReady task allTasks)
   \<and> (task_dependsOn task = Some [] \<longrightarrow> checkTaskReady task allTasks)
   \<and> (task_dependsOn task = Some deps \<longrightarrow>
        (checkTaskReady task allTasks \<longleftrightarrow>
          (\<forall>d\<in>set deps. (\<forall>t\<in>set allTasks. task_id t \<noteq> d)
             \<or> (\<exists>pre t post. allTasks = pre @ t # post \<and> (\<forall>u\<in>set pre. task_id u \<noteq> d)
                   \<and> task_id t = d
                   \<and> (task_status t = Completed \<or> task_status t = Cancelled)))))
   \<and> (distinct (map task_id allTasks) \<and> task_dependsOn task = Some deps \<longrightarrow>
        (checkTaskReady task allTasks \<longleftrightarrow>
          (\<forall>d\<in>set deps. (\<forall>t\<in>set allTasks. task_id t \<noteq> d)
             \<or> (\<exists>t\<in>set allTasks. task_id t = d
                   \<and> (task_status t = Completed \<or> task_status t = Cancelled)))))
   \<and> (distinct (map task_id allTasks) \<and> task_dependsOn task = Some deps \<and> d \<in> set deps
        \<and> t \<in> set allTasks \<and> task_id t = d
        \<and> (task_status t = In_progress \<or> task_status t = Open)
        \<longrightarrow> \<not> checkTaskReady task allTasks)"
  (is "?none \<and> ?empty \<and> ?first \<and> ?unique \<and> ?blocked")
proof -
  let ?ok = "\<lambda>d. case find (\<lambda>t. task_id t = d) allTasks of
                     None \<Rightarrow> True
                   | Some depTask \<Rightarrow>
                       task_status depTask = Completed \<or> task_status depTask = Cancelled"
  have ready: "checkTaskReady task allTasks \<longleftrightarrow> (\<forall>d\<in>set ds. ?ok d)"
    if "task_dependsOn task = Some ds" for ds
    using that by (simp add: checkTaskReady_def list_all_iff)
  have first_one: "?ok d \<longleftrightarrow>
      ((\<forall>t\<in>set allTasks. task_id t \<noteq> d)
        \<or> (\<exists>pre t post. allTasks = pre @ t # post \<and> (\<forall>u\<in>set pre. task_id u \<noteq> d)
              \<and> task_id t = d
              \<and> (task_status t = Completed \<or> task_status t = Cancelled)))" for d
  proof (cases "find (\<lambda>t. task_id t = d) allTasks")
    case None
    then have "\<forall>t\<in>set allTasks. task_id t \<noteq> d"
      by (auto simp: find_None_iff)
    with None show ?thesis by simp
  next
    case (Some u)
    then obtain pre post where u: "allTasks = pre @ u # post" "\<forall>v\<in>set pre. task_id v \<noteq> d"
      "task_id u = d"
      by (auto simp: find_first_split)
    have same: "t = u"
      if "allTasks = pre' @ t # post'" "\<forall>v\<in>set pre'. task_id v \<noteq> d" "task_id t = d"
      for pre' t post'
    proof -
      from that have "find (\<lambda>t. task_id t = d) allTasks = Some t"
        by (auto simp: find_first_split)
      with Some show ?thesis by simp
    qed
    have "u \<in> set allTasks" using u(1) by simp
    with u same have "((\<forall>t\<in>set allTasks. task_id t \<noteq> d)
        \<or> (\<exists>pre t post. allTasks = pre @ t # post \<and> (\<forall>u\<in>set pre. task_id u \<noteq> d)
              \<and> task_id t = d
              \<and> (task_status t = Completed \<or> task_status t = Cancelled)))
        \<longleftrightarrow> (task_status u = Completed \<or> task_status u = Cancelled)"
      by blast
    with Some show ?thesis by simp
  qed
  have unique_one: "?ok d \<longleftrightarrow>
      ((\<forall>t\<in>set allTasks. task_id t \<noteq> d)
        \<or> (\<exists>t\<in>set allTasks. task_id t = d
              \<and> (task_status t = Completed \<or> task_status t = Cancelled)))"
    if dist: "distinct (map task_id allTasks)" for d
  proof (cases "find (\<lambda>t. task_id t = d) allTasks")
    case None
    then have "\<forall>t\<in>set allTasks. task_id t \<noteq> d"
      by (auto simp: find_None_iff)
    with None show ?thesis by simp
  next
    case (Some u)
    with dist have u: "u \<in> set allTasks" "task_id u = d"
      by (simp_all add: find_distinct_key)
    have uniq: "t = u" if "t \<in> set allTasks" "task_id t = d" for t
    proof -
      from dist have "inj_on task_id (set allTasks)" by (simp add: distinct_map)
      with that u show ?thesis by (auto dest: inj_onD)
    qed
    have "((\<forall>t\<in>set allTasks. task_id t \<noteq> d)
               \<or> (\<exists>t\<in>set allTasks. task_id t = d
                     \<and> (task_status t = Completed \<or> task_status t = Cancelled)))
          \<longleftrightarrow> (task_status u = Completed \<or> task_status u = Cancelled)"
      using u uniq by blast
    with Some show ?thesis by simp
  qed
  have a: ?none by (simp add: checkTaskReady_def)
  have b: ?empty by (simp add: checkTaskReady_def)
  have c: ?first using ready [of deps] first_one by simp
  have d: ?unique using ready [of deps] unique_one by simp
  have e: ?blocked
  proof
    assume h: "distinct (map task_id allTasks) \<and> task_dependsOn task = Some deps \<and> d \<in> set deps
        \<and> t \<in> set allTasks \<and> task_id t = d
        \<and> (task_status t = In_progress \<or> task_status t = Open)"
    then have f: "find (\<lambda>u. task_id u = d) allTasks = Some t"
      by (simp add: find_distinct_key)
    with h have "\<not> ?ok d" by auto
    with h ready [of deps] show "\<not> checkTaskReady task allTasks" by blast
  qed
  from a b c d e show ?thesis by (intro conjI)
qed

theorem checkTaskReady_spec_witness:
  "distinct (map task_id depTasks)
   \<and> checkTaskReady (mkTask ''T'' Open [] []) depTasks
   \<and> checkTaskReady (mkTask ''T'' Open [] [''A'', ''Z'']) depTasks
   \<and> \<not> checkTaskReady (mkTask ''T'' Open [] [''A'', ''B'']) depTasks"
proof -
  have dist: "distinct (map task_id depTasks)"
    by (simp add: fixture_defs)
  have free: "checkTaskReady (mkTask ''T'' Open [] []) depTasks"
    using checkTaskReady_spec [where task = "mkTask ''T'' Open [] []" and allTasks = depTasks,
        THEN conjunct1]
    by (simp add: mkTask_def)
  have missing: "checkTaskReady (mkTask ''T'' Open [] [''A'', ''Z'']) depTasks"
    using checkTaskReady_spec [where task = "mkTask ''T'' Open [] [''A'', ''Z'']"
        and allTasks = depTasks and deps = "[''A'', ''Z'']",
        THEN conjunct2, THEN conjunct2, THEN conjunct2, THEN conjunct1] dist
    by (simp add: fixture_defs)
  have blocked: "\<not> checkTaskReady (mkTask ''T'' Open [] [''A'', ''B'']) depTasks"
    using checkTaskReady_spec [where task = "mkTask ''T'' Open [] [''A'', ''B'']"
        and allTasks = depTasks and deps = "[''A'', ''B'']" and d = "''B''"
        and t = "mkTask ''B'' Open [] []",
        THEN conjunct2, THEN conjunct2, THEN conjunct2, THEN conjunct2] dist
    by (simp add: fixture_defs)
  from dist free missing blocked show ?thesis by simp
qed

section \<open>The filter engine\<close>













section \<open>Workflow states\<close>

lemma getTeamStates_frame:
  "getTeamStates p w = (r, p', w') \<Longrightarrow> \<exists>sc. p' = p\<lparr>stateCache := sc\<rparr>"
  by (auto simp: getTeamStates_def split: option.splits if_splits prod.splits sum.splits
      intro: exI[of _ "stateCache p"])

lemma findStateByType_frame:
  "findStateByType ty p w = (r, p', w') \<Longrightarrow> \<exists>sc. p' = p\<lparr>stateCache := sc\<rparr>"
  by (auto simp: findStateByType_def split: prod.splits sum.splits dest: getTeamStates_frame)

lemma findStateByType_missing:
  assumes "getTeamStates p w = (Inr states, p1, w1)"
    and "\<forall>s\<in>set states. state_type s \<noteq> ty"
  shows "findStateByType ty p w = (Inr None, p1, w1)"
proof -
  from assms(2) have "find (\<lambda>s. state_type s = ty) states = None"
    by (simp add: find_None_iff)
  with assms(1) show ?thesis by (simp add: findStateByType_def)
qed

lemma diffFields_nonempty:
  "diffFields a b \<noteq> [] \<longleftrightarrow>
     (task_status a \<noteq> task_status b \<or> task_title a \<noteq> task_title b
      \<or> task_description a \<noteq> task_description b \<or> task_assignee a \<noteq> task_assignee b)"
  by (simp add: diffFields_def)

section \<open>Conflict detection\<close>

text \<open>
  C3. \<open>detectConflict\<close> reports no conflict when the task has no baseline. With a
  client, a baseline \<open>synced\<close> and a fresh remote record \<open>issue\<close>, it returns a
  conflict record if and only if the remote \<open>updatedAt\<close> differs from the baseline's
  and at least one of status, title, description and assignee differs between the
  baseline task and the normalized remote task; otherwise (in particular when only the
  timestamp differs) it returns no conflict. Without a client, or when the fetch
  fails, it returns no conflict as well. The plugin is left as it was.
\<close>

theorem detectConflict_spec:
  "(lastSyncedTasks p tid = None \<longrightarrow> detectConflict tid p w = (Inr None, p, w))
   \<and> (client p = Some c \<and> lastSyncedTasks p tid = Some synced
          \<and> api_getIssue c tid w = (Inr issue, w') \<longrightarrow>
        detectConflict tid p w =
          (if issue_updatedAt issue \<noteq> synced_updatedAt synced
              \<and> (task_status (synced_task synced) \<noteq> task_status (issueToTask issue)
                 \<or> task_title (synced_task synced) \<noteq> task_title (issueToTask issue)
                 \<or> task_description (synced_task synced) \<noteq> task_description (issueToTask issue)
                 \<or> task_assignee (synced_task synced) \<noteq> task_assignee (issueToTask issue))
           then Inr (Some \<lparr> taskId = tid,
                             localVersion = synced_task synced,
                             remoteVersion = issueToTask issue,
                             localUpdatedAt = synced_updatedAt synced,
                             remoteUpdatedAt = issue_updatedAt issue,
                             changedFields = diffFields (synced_task synced) (issueToTask issue) \<rparr>)
           else Inr None, p, w'))
   \<and> (client p = None \<longrightarrow> detectConflict tid p w = (Inr None, p, w))
   \<and> (client p = Some c \<and> lastSyncedTasks p tid = Some synced
          \<and> api_getIssue c tid w = (Inl e, w') \<longrightarrow>
        detectConflict tid p w = (Inr None, p, w'))"
proof (intro conjI impI)
  assume "lastSyncedTasks p tid = None"
  then show "detectConflict tid p w = (Inr None, p, w)"
    by (simp add: detectConflict_def split: option.splits)
next
  assume "client p = None"
  then show "detectConflict tid p w = (Inr None, p, w)"
    by (simp add: detectConflict_def)
next
  assume "client p = Some c \<and> lastSyncedTasks p tid = Some synced
          \<and> api_getIssue c tid w = (Inl e, w')"
  then show "detectConflict tid p w = (Inr None, p, w')"
    by (simp add: detectConflict_def)
next
  assume a: "client p = Some c \<and> lastSyncedTasks p tid = Some synced
          \<and> api_getIssue c tid w = (Inr issue, w')"
  then show "detectConflict tid p w =
          (if issue_updatedAt issue \<noteq> synced_updatedAt synced
              \<and> (task_status (synced_task synced) \<noteq> task_status (issueToTask issue)
                 \<or> task_title (synced_task synced) \<noteq> task_title (issueToTask issue)
                 \<or> task_description (synced_task synced) \<noteq> task_description (issueToTask issue)
                 \<or> task_assignee (synced_task synced) \<noteq> task_assignee (issueToTask issue))
           then Inr (Some \<lparr> taskId = tid,
                             localVersion = synced_task synced,
                             remoteVersion = issueToTask issue,
                             localUpdatedAt = synced_updatedAt synced,
                             remoteUpdatedAt = issue_updatedAt issue,
                             changedFields = diffFields (synced_task synced) (issueToTask issue) \<rparr>)
           else Inr None, p, w')"
    using diffFields_nonempty[of "synced_task synced" "issueToTask issue"]
    by (simp add: detectConflict_def Let_def)
qed

theorem detectConflict_spec_witness:
  "detectConflict ''1'' (conflictPlugin True) 0 =
     (Inr (Some \<lparr> taskId = ''1'', localVersion = issueToTask oldIssue,
                   remoteVersion = issueToTask newIssue,
                   localUpdatedAt = ''2024-05-01'', remoteUpdatedAt = ''2024-05-02'',
                   changedFields = [''status''] \<rparr>), conflictPlugin True, 1)
   \<and> detectConflict ''2'' (conflictPlugin True) 0 = (Inr None, conflictPlugin True, 0)"
  using detectConflict_spec [where p = "conflictPlugin True" and tid = "''1''" and w = 0
      and c = "conflictClient True" and synced = oldEntry and issue = newIssue and w' = 1]
    detectConflict_spec [where p = "conflictPlugin True" and tid = "''2''" and w = 0]
  by (simp add: fixture_defs api_defs task_defs)

lemma detect_eval:
  "detectConflict ''1'' (conflictPlugin a) 0 =
     (Inr (Some \<lparr> taskId = ''1'', localVersion = issueToTask oldIssue,
                   remoteVersion = issueToTask newIssue,
                   localUpdatedAt = ''2024-05-01'', remoteUpdatedAt = ''2024-05-02'',
                   changedFields = [''status''] \<rparr>), conflictPlugin a, 1)"
  by (simp add: detectConflict_def fixture_defs api_defs task_defs)

section \<open>Choosing the next task\<close>















section \<open>Operations that never reject\<close>

lemma getTasks_returns: "\<exists>r. fst (getTasks f p w) = Inr r"
  by (simp add: getTasks_def Let_def split: option.splits prod.splits sum.splits)

lemma getTask_returns: "\<exists>r. fst (getTask i p w) = Inr r"
  by (simp add: getTask_def Let_def split: option.splits prod.splits sum.splits)

lemma getNextTask_returns: "\<exists>r. fst (getNextTask f p w) = Inr r"
  using getTasks_returns[of "Some (nextTaskFilter f)" p w]
  by (auto simp: getNextTask_def split: prod.splits sum.splits)

lemma completeTask_returns: "\<exists>r. fst (completeTask i reason p w) = Inr r"
  by (simp add: completeTask_def Let_def split: option.splits prod.splits sum.splits)

lemma updateTaskStatus_returns: "\<exists>r. fst (updateTaskStatus i st p w) = Inr r"
  by (simp add: updateTaskStatus_def Let_def split: option.splits prod.splits sum.splits)

lemma claimTask_returns: "\<exists>r. fst (claimTask i p w) = Inr r"
  by (simp add: claimTask_def Let_def split: option.splits prod.splits sum.splits)

lemma isComplete_returns: "\<exists>r. fst (isComplete f p w) = Inr r"
  using getTasks_returns[of f p w]
  by (auto simp: isComplete_def split: prod.splits sum.splits)

lemma sync_returns: "\<exists>r. fst (sync now p w) = Inr r"
  by (simp add: sync_def Let_def split: option.splits prod.splits sum.splits)

lemma isTaskReady_returns: "\<exists>r. fst (isTaskReady i p w) = Inr r"
proof -
  obtain r p1 w1 where g: "getTask i p w = (Inr r, p1, w1)"
    using getTask_returns[of i p w] by (cases "getTask i p w") auto
  obtain ts p2 w2 where t: "getTasks None p1 w1 = (Inr ts, p2, w2)"
    using getTasks_returns[of None p1 w1] by (cases "getTasks None p1 w1") auto
  from g t show ?thesis by (cases r) (auto simp: isTaskReady_def)
qed

lemma detectConflict_returns: "\<exists>r. fst (detectConflict i p w) = Inr r"
  by (simp add: detectConflict_def Let_def split: option.splits prod.splits sum.splits)

lemma getEpics_returns: "\<exists>r. fst (getEpics p w) = Inr r"
  by (simp add: getEpics_def split: option.splits prod.splits sum.splits)

lemma detectConflict_frame: "detectConflict i p w = (r, p', w') \<Longrightarrow> p' = p"
  by (auto simp: detectConflict_def Let_def split: option.splits prod.splits sum.splits if_splits)

lemma detectConflict_client:
  "detectConflict i p w = (Inr (Some ci), p', w') \<Longrightarrow> client p \<noteq> None"
  by (auto simp: detectConflict_def split: option.splits)

section \<open>Conflict resolution\<close>

text \<open>
  What \<open>resolveConflict\<close> does on a detected conflict, for \<open>remote\<close> and for
  \<open>merge\<close>: both return the remote version; \<open>remote\<close> writes it into the cache
  and the baseline store, \<open>merge\<close> writes nothing.
\<close>

lemma resolveConflict_on_conflict:
  assumes "detectConflict tid p w = (Inr (Some conflict), p1, w1)"
  shows "resolveConflict tid Remote p w =
           (Inr (Some (remoteVersion conflict)),
            p\<lparr> taskCache := (taskCache p)(tid \<mapsto> remoteVersion conflict),
                lastSyncedTasks := (lastSyncedTasks p)(tid \<mapsto>
                  \<lparr> synced_task = remoteVersion conflict,
                    synced_updatedAt = remoteUpdatedAt conflict \<rparr>) \<rparr>, w1)
       \<and> resolveConflict tid Merge p w = (Inr (Some (remoteVersion conflict)), p, w1)"
proof -
  from assms have "p1 = p" by (rule detectConflict_frame)
  moreover from assms obtain c where "client p = Some c"
    using detectConflict_client by fastforce
  ultimately show ?thesis using assms by (simp add: resolveConflict_def)
qed

text \<open>
  C1. On a detected conflict \<open>merge\<close> is to behave as \<open>remote\<close>: return the
  remote version and write it into the cache and the baseline store. The code returns
  the remote version for \<open>merge\<close> without either write, where its sibling branches
  (\<open>remote\<close>, and \<open>local\<close> when the state resolves) do both. On a baseline that is
  open while the remote issue is started: after \<open>remote\<close> the cache holds the remote
  task and the baseline its timestamp; after \<open>merge\<close> the cache still holds the old
  task, the baseline store the old entry, and \<open>detectConflict\<close> reports the same
  conflict again.
\<close>

theorem resolveConflict_merge_leaves_stores:
  "fst (detectConflict ''1'' (conflictPlugin True) 0) \<noteq> Inr None
   \<and> fst (resolveConflict ''1'' Merge (conflictPlugin True) 0)
       = Inr (Some (issueToTask newIssue))
   \<and> fst (resolveConflict ''1'' Remote (conflictPlugin True) 0)
       = Inr (Some (issueToTask newIssue))
   \<and> taskCache (fst (snd (resolveConflict ''1'' Remote (conflictPlugin True) 0))) ''1''
       = Some (issueToTask newIssue)
   \<and> taskCache (fst (snd (resolveConflict ''1'' Merge (conflictPlugin True) 0))) ''1''
       = Some (issueToTask oldIssue)
   \<and> issueToTask oldIssue \<noteq> issueToTask newIssue
   \<and> lastSyncedTasks (fst (snd (resolveConflict ''1'' Remote (conflictPlugin True) 0))) ''1''
       = Some \<lparr> synced_task = issueToTask newIssue, synced_updatedAt = ''2024-05-02'' \<rparr>
   \<and> lastSyncedTasks (fst (snd (resolveConflict ''1'' Merge (conflictPlugin True) 0))) ''1''
       = Some oldEntry
   \<and> fst (detectConflict ''1''
            (fst (snd (resolveConflict ''1'' Merge (conflictPlugin True) 0)))
            (snd (snd (resolveConflict ''1'' Merge (conflictPlugin True) 0))))
       \<noteq> Inr None
   \<and> fst (detectConflict ''1''
            (fst (snd (resolveConflict ''1'' Remote (conflictPlugin True) 0)))
            (snd (snd (resolveConflict ''1'' Remote (conflictPlugin True) 0))))
       = Inr None"
  by (simp add: resolveConflict_def detectConflict_def fixture_defs api_defs task_defs)

lemma resolveConflict_returns_unless_local:
  "resolution \<noteq> Local \<Longrightarrow> \<exists>r. fst (resolveConflict i resolution p w) = Inr r"
proof -
  assume nl: "resolution \<noteq> Local"
  obtain r p1 w1 where d: "detectConflict i p w = (Inr r, p1, w1)"
    using detectConflict_returns[of i p w] by (cases "detectConflict i p w") auto
  show ?thesis
  proof (cases "client p")
    case None
    then show ?thesis by (simp add: resolveConflict_def)
  next
    case (Some c)
    show ?thesis
    proof (cases r)
      case None
      with Some d show ?thesis
        using getTask_returns[of i p1 w1] by (simp add: resolveConflict_def)
    next
      case (Some ci)
      with \<open>client p = Some c\<close> d nl show ?thesis by (simp add: resolveConflict_def)
    qed
  qed
qed

text \<open>
  C2. The claim is that no public operation rejects. The lemmas of the previous
  section prove it for the eleven other operations, and
  \<open>resolveConflict_returns_unless_local\<close> for \<open>resolveConflict\<close> with \<open>remote\<close>
  and \<open>merge\<close>. The branch for \<open>local\<close> calls \<open>findStateByType\<close> and
  \<open>updateIssue\<close> outside any \<open>try\<close>: when the remote service answers the update
  with \<open>success: false\<close>, \<open>resolveConflict\<close> rejects with the client's error.
\<close>

theorem resolveConflict_local_raises:
  "fst (resolveConflict ''1'' Local (conflictPlugin False) 0)
     = Inl (Error ''Failed to update issue'')"
  by (simp add: resolveConflict_def detectConflict_def findStateByType_def getTeamStates_def
      fixture_defs api_defs task_defs)

section \<open>Completing and claiming\<close>

lemma completeTask_shape:
  assumes run: "completeTask ident reason p w = (res, p', w')"
  shows "\<exists>r. res = Inr r
           \<and> (if completion_success r
               then \<exists>task. completion_task r = Some task
                      \<and> taskCache p' = (taskCache p)(ident \<mapsto> task)
               else taskCache p' = taskCache p)
           \<and> lastSyncedTasks p' = lastSyncedTasks p"
proof (cases "client p")
  case None
  with run show ?thesis
    by (auto simp: completeTask_def)
next
  case (Some c)
  obtain r p1 w1 where f: "findStateByType ''completed'' p w = (r, p1, w1)"
    by (cases "findStateByType ''completed'' p w") auto
  then obtain sc where p1: "p1 = p\<lparr>stateCache := sc\<rparr>"
    by (auto dest: findStateByType_frame)
  show ?thesis
  proof (cases r)
    case (Inl e)
    with run Some f p1 show ?thesis
      by (auto simp: completeTask_def completeFailed_def)
  next
    case (Inr sid)
    show ?thesis
    proof (cases "truthy sid")
      case False
      with run Some f p1 Inr show ?thesis
        by (auto simp: completeTask_def)
    next
      case True
      obtain u w2 where up: "api_updateIssue c ident
                         \<lparr> input_stateId = sid, input_assigneeId = None,
                           input_labelIds = None, input_description = None \<rparr> w1 = (u, w2)"
        by (cases "api_updateIssue c ident
                         \<lparr> input_stateId = sid, input_assigneeId = None,
                           input_labelIds = None, input_description = None \<rparr> w1") auto
      show ?thesis
      proof (cases u)
        case (Inl e)
        with run Some f p1 \<open>r = Inr sid\<close> True up show ?thesis
          by (auto simp: completeTask_def completeFailed_def)
      next
        case (Inr issue)
        with run Some f p1 \<open>r = Inr sid\<close> True up show ?thesis
          by (auto simp: completeTask_def completeFailed_def Let_def
              split: option.splits prod.splits sum.splits if_splits)
      qed
    qed
  qed
qed

text \<open>
  C9. \<open>completeTask\<close> never rejects and never changes the baseline store; it changes
  the cache at most at the given id, and exactly by writing the returned task there
  when it reports success. When the workflow states of the team hold no state of type
  \<open>completed\<close>, it returns the failure result with the message
  \<open>Could not find completed state\<close>, and the cache and the baseline store are as
  before.
\<close>

theorem completeTask_frame:
  "(completeTask ident reason p w = (res, p', w') \<longrightarrow>
        lastSyncedTasks p' = lastSyncedTasks p
      \<and> (k \<noteq> ident \<longrightarrow> taskCache p' k = taskCache p k)
      \<and> (\<exists>r. res = Inr r
            \<and> (if completion_success r
                then \<exists>task. completion_task r = Some task
                       \<and> taskCache p' = (taskCache p)(ident \<mapsto> task)
                else taskCache p' = taskCache p)))
   \<and> (client p = Some c \<and> getTeamStates p w = (Inr states, p1, w1)
          \<and> (\<forall>s\<in>set states. state_type s \<noteq> ''completed'') \<longrightarrow>
        completeTask ident reason p w =
          (Inr \<lparr> completion_success = False,
                 completion_message = ''Could not find completed state'',
                 completion_task = None,
                 completion_error = Some ''No completed state found in team workflow'' \<rparr>,
           p1, w1)
        \<and> taskCache p1 = taskCache p \<and> lastSyncedTasks p1 = lastSyncedTasks p)"
proof (intro conjI impI)
  assume run: "completeTask ident reason p w = (res, p', w')"
  from completeTask_shape[OF run] obtain r where r: "res = Inr r"
    and sh: "if completion_success r
               then \<exists>task. completion_task r = Some task
                      \<and> taskCache p' = (taskCache p)(ident \<mapsto> task)
               else taskCache p' = taskCache p"
    and base: "lastSyncedTasks p' = lastSyncedTasks p"
    by blast
  from base show "lastSyncedTasks p' = lastSyncedTasks p" .
  from sh show "taskCache p' k = taskCache p k" if "k \<noteq> ident"
    using that by (auto split: if_splits)
  from r sh show "\<exists>r. res = Inr r
            \<and> (if completion_success r
                then \<exists>task. completion_task r = Some task
                       \<and> taskCache p' = (taskCache p)(ident \<mapsto> task)
                else taskCache p' = taskCache p)"
    by blast
next
  assume a: "client p = Some c \<and> getTeamStates p w = (Inr states, p1, w1)
          \<and> (\<forall>s\<in>set states. state_type s \<noteq> ''completed'')"
  then have f: "findStateByType ''completed'' p w = (Inr None, p1, w1)"
    by (intro findStateByType_missing[of p w states]) simp_all
  with a show "completeTask ident reason p w =
          (Inr \<lparr> completion_success = False,
                 completion_message = ''Could not find completed state'',
                 completion_task = None,
                 completion_error = Some ''No completed state found in team workflow'' \<rparr>,
           p1, w1)"
    by (simp add: completeTask_def truthy_def)
  from a have "getTeamStates p w = (Inr states, p1, w1)" by simp
  then obtain sc where "p1 = p\<lparr>stateCache := sc\<rparr>"
    by (auto dest: getTeamStates_frame)
  then show "taskCache p1 = taskCache p" "lastSyncedTasks p1 = lastSyncedTasks p"
    by simp_all
qed

lemma narrow_states:
  "getTeamStates (stubPlugin (narrowClient missing) cache synced) 0 =
     (Inr (filter (\<lambda>s. state_type s \<noteq> missing) workflow),
      (stubPlugin (narrowClient missing) cache synced)
        \<lparr>stateCache := [''team'' \<mapsto> filter (\<lambda>s. state_type s \<noteq> missing) workflow]\<rparr>, 1)"
  by (simp add: getTeamStates_def stubPlugin_def narrowClient_def stubClient_def api_defs)

theorem completeTask_frame_witness:
  "fst (completeTask ''1'' (Some ''done'') (narrowPlugin ''completed'') 0) =
     Inr \<lparr> completion_success = False,
           completion_message = ''Could not find completed state'',
           completion_task = None,
           completion_error = Some ''No completed state found in team workflow'' \<rparr>
   \<and> taskCache (fst (snd (completeTask ''1'' (Some ''done'') (narrowPlugin ''completed'') 0))) ''1''
       = Some (issueToTask oldIssue)
   \<and> lastSyncedTasks (fst (snd (completeTask ''1'' (Some ''done'') (narrowPlugin ''completed'') 0))) ''1''
       = Some oldEntry
   \<and> lastSyncedTasks (fst (snd (completeTask ''1'' (Some ''done'') (conflictPlugin True) 0))) ''1''
       = Some oldEntry
   \<and> taskCache (fst (snd (completeTask ''1'' (Some ''done'') (conflictPlugin True) 0))) ''1''
       = Some (issueToTask newIssue)"
proof -
  let ?P = "narrowPlugin ''completed''"
  let ?S = "filter (\<lambda>s. state_type s \<noteq> ''completed'') workflow"
  let ?P1 = "?P\<lparr>stateCache := [''team'' \<mapsto> ?S]\<rparr>"
  let ?Q = "conflictPlugin True"
  let ?X = "completeTask ''1'' (Some ''done'') ?Q 0"
  have hyp: "client ?P = Some (narrowClient ''completed'')
      \<and> getTeamStates ?P 0 = (Inr ?S, ?P1, 1)
      \<and> (\<forall>s\<in>set ?S. state_type s \<noteq> ''completed'')"
    using narrow_states [of "''completed''" "[''1'' \<mapsto> issueToTask oldIssue]"
        "[''1'' \<mapsto> oldEntry]"]
    by (simp add: narrowPlugin_def stubPlugin_def)
  have fail: "completeTask ''1'' (Some ''done'') ?P 0 =
          (Inr \<lparr> completion_success = False,
                 completion_message = ''Could not find completed state'',
                 completion_task = None,
                 completion_error = Some ''No completed state found in team workflow'' \<rparr>,
           ?P1, 1)
        \<and> taskCache ?P1 = taskCache ?P \<and> lastSyncedTasks ?P1 = lastSyncedTasks ?P"
    using completeTask_frame [where ident = "''1''" and reason = "Some ''done''"
        and p = ?P and w = 0 and c = "narrowClient ''completed''" and states = ?S
        and ?p1.0 = ?P1 and ?w1.0 = 1, THEN conjunct2] hyp
    by (rule mp)
  have before: "taskCache ?P ''1'' = Some (issueToTask oldIssue)"
    "lastSyncedTasks ?P ''1'' = Some oldEntry" "lastSyncedTasks ?Q ''1'' = Some oldEntry"
    by (simp_all add: narrowPlugin_def conflictPlugin_def stubPlugin_def)
  have "?X = (fst ?X, fst (snd ?X), snd (snd ?X))"
    by simp
  with completeTask_frame [where ident = "''1''" and reason = "Some ''done''"
        and p = ?Q and w = 0 and res = "fst ?X" and p' = "fst (snd ?X)"
        and w' = "snd (snd ?X)", THEN conjunct1]
  have kept: "lastSyncedTasks (fst (snd ?X)) = lastSyncedTasks ?Q"
    by blast
  have written: "taskCache (fst (snd ?X)) ''1'' = Some (issueToTask newIssue)"
    by (simp add: completeTask_def findStateByType_def getTeamStates_def
        fixture_defs api_defs task_defs)
  from fail before kept written show ?thesis by simp
qed

text \<open>
  C10. When the workflow states of the team hold no state of type \<open>started\<close>,
  \<open>claimTask\<close> reports no missing state: it sends the update with the assignee and
  no state id, and on the service's reply writes the returned task into the cache and
  the baseline store (a failed update yields \<open>undefined\<close> with both stores as they
  were). \<open>updateTaskStatus\<close> towards \<open>started\<close>, and \<open>completeTask\<close> when
  no \<open>completed\<close> state exists, return their failure without sending an update.
\<close>

theorem claimTask_without_started_state:
  assumes "client p = Some c" and "userId p \<noteq> []"
    and "getTeamStates p w = (Inr states, p1, w1)"
    and "\<forall>s\<in>set states. state_type s \<noteq> ''started''"
  shows "(api_updateIssue c ident
              \<lparr> input_stateId = None, input_assigneeId = Some (userId p),
                input_labelIds = None, input_description = None \<rparr> w1 = (Inr issue, w2) \<longrightarrow>
            claimTask ident p w =
              (Inr (Some (issueToTask issue)),
               p1\<lparr> taskCache := (taskCache p1)(ident \<mapsto> issueToTask issue),
                   lastSyncedTasks := (lastSyncedTasks p1)(ident \<mapsto>
                     \<lparr> synced_task = issueToTask issue,
                       synced_updatedAt = issue_updatedAt issue \<rparr>) \<rparr>, w2))
     \<and> (api_updateIssue c ident
              \<lparr> input_stateId = None, input_assigneeId = Some (userId p),
                input_labelIds = None, input_description = None \<rparr> w1 = (Inl e, w3) \<longrightarrow>
            claimTask ident p w = (Inr None, p1, w3))
     \<and> (mapStatusToStateType status = ''started'' \<longrightarrow>
            updateTaskStatus ident status p w = (Inr None, p1, w1))
     \<and> ((\<forall>s\<in>set states. state_type s \<noteq> ''completed'') \<longrightarrow>
            (\<exists>r. completeTask ident reason p w = (Inr r, p1, w1) \<and> \<not> completion_success r))"
proof -
  from assms(3) obtain sc where p1: "p1 = p\<lparr>stateCache := sc\<rparr>"
    by (auto dest: getTeamStates_frame)
  have f: "findStateByType ''started'' p w = (Inr None, p1, w1)"
    using assms(3,4) by (rule findStateByType_missing)
  have claim_ok: "claimTask ident p w =
              (Inr (Some (issueToTask issue)),
               p1\<lparr> taskCache := (taskCache p1)(ident \<mapsto> issueToTask issue),
                   lastSyncedTasks := (lastSyncedTasks p1)(ident \<mapsto>
                     \<lparr> synced_task = issueToTask issue,
                       synced_updatedAt = issue_updatedAt issue \<rparr>) \<rparr>, w2)"
    if "api_updateIssue c ident
              \<lparr> input_stateId = None, input_assigneeId = Some (userId p),
                input_labelIds = None, input_description = None \<rparr> w1 = (Inr issue, w2)"
    for issue w2
    using that assms(1,2) f p1 by (simp add: claimTask_def Let_def)
  have claim_err: "claimTask ident p w = (Inr None, p1, w2)"
    if "api_updateIssue c ident
              \<lparr> input_stateId = None, input_assigneeId = Some (userId p),
                input_labelIds = None, input_description = None \<rparr> w1 = (Inl e, w2)"
    for e w2
    using that assms(1,2) f p1 by (simp add: claimTask_def)
  have upd: "updateTaskStatus ident status p w = (Inr None, p1, w1)"
    if "mapStatusToStateType status = ''started''" for status
    using that assms(1) f by (simp add: updateTaskStatus_def truthy_def)
  have compl: "\<exists>r. completeTask ident reason p w = (Inr r, p1, w1) \<and> \<not> completion_success r"
    if "\<forall>s\<in>set states. state_type s \<noteq> ''completed''"
  proof -
    from assms(3) that have "findStateByType ''completed'' p w = (Inr None, p1, w1)"
      by (rule findStateByType_missing)
    with assms(1) show ?thesis by (simp add: completeTask_def truthy_def)
  qed
  from claim_ok claim_err upd compl show ?thesis by blast
qed

theorem claimTask_without_started_state_witness:
  "fst (claimTask ''1'' (freshPlugin ''started'') 0) = Inr (Some (issueToTask oldIssue))
   \<and> taskCache (fst (snd (claimTask ''1'' (freshPlugin ''started'') 0))) ''1''
       = Some (issueToTask oldIssue)
   \<and> lastSyncedTasks (fst (snd (claimTask ''1'' (freshPlugin ''started'') 0))) ''1''
       = Some oldEntry
   \<and> fst (updateTaskStatus ''1'' In_progress (freshPlugin ''started'') 0) = Inr None"
proof -
  have h1: "client (freshPlugin ''started'') = Some (narrowClient ''started'')"
    by (simp add: freshPlugin_def stubPlugin_def)
  have h2: "userId (freshPlugin ''started'') \<noteq> []"
    by (simp add: freshPlugin_def stubPlugin_def)
  have h3: "getTeamStates (freshPlugin ''started'') 0 =
     (Inr (filter (\<lambda>s. state_type s \<noteq> ''started'') workflow),
      (freshPlugin ''started'')
        \<lparr>stateCache := [''team'' \<mapsto> filter (\<lambda>s. state_type s \<noteq> ''started'') workflow]\<rparr>, 1)"
    unfolding freshPlugin_def by (rule narrow_states)
  have h4: "\<forall>s\<in>set (filter (\<lambda>s. state_type s \<noteq> ''started'') workflow).
              state_type s \<noteq> ''started''"
    by simp
  from claimTask_without_started_state [OF h1 h2 h3 h4, where ident = "''1''"
      and issue = oldIssue and ?w2.0 = 2 and status = In_progress]
  show ?thesis
    by (simp add: fixture_defs api_defs task_defs)
qed

end
